theory Spec2Isabelle
  imports Complex_Main "HOL-Library.Sublist"
begin

section \<open>Data model (windows\_use/agent/hitl/views.py)\<close>

datatype ApprovalResult = APPROVED | REJECTED | TIMEOUT

datatype ApprovalBackend = CLI | SLACK | WEBHOOK | AUTO_APPROVE

text \<open>
  A parameter dictionary is kept as the list of its items in insertion order; a value is
  represented by its text. The field \<open>context\<close> of the source is written \<open>context'\<close>.
\<close>

type_synonym parameters = "(string \<times> string) list"

record ApprovalRequest =
  tool_name :: string
  tool_description :: string
  parameters :: parameters
  step_number :: int
  context' :: string
  risk_level :: string

record ApprovalResponse =
  result :: ApprovalResult
  message :: string
  approved_by :: string
  timestamp :: real

section \<open>Python exceptions\<close>

text \<open>
  The exceptions that the modelled code raises, catches or lets through. \<open>Exception s\<close>
  stands for an instance of any other subclass of Python's \<open>Exception\<close>, with its text.
  \<open>KeyboardInterrupt\<close> and \<open>SystemExit\<close> derive from \<open>BaseException\<close> only, so a
  handler \<^verbatim>\<open>except Exception\<close> does not catch them. \<open>MarkupError\<close> is what the rich
  library raises when it is given console markup that it cannot render, and
  \<open>RecursionError\<close> what the interpreter raises when calls are nested too deeply; both
  are instances of \<open>Exception\<close>.
\<close>

datatype py_exception =
    KeyboardInterrupt
  | SystemExit
  | EOFError
  | ImportError string
  | ValueError string
  | AttributeError string
  | MarkupError string
  | RecursionError
  | Exception string

fun isinstance_Exception :: "py_exception \<Rightarrow> bool" where
  "isinstance_Exception KeyboardInterrupt = False"
| "isinstance_Exception SystemExit = False"
| "isinstance_Exception _ = True"

section \<open>Risk classification (windows\_use/agent/hitl/service.py)\<close>

definition CRITICAL_RISK_TOOLS :: "string set" where
  "CRITICAL_RISK_TOOLS = {''shell_tool''}"

definition HIGH_RISK_TOOLS :: "string set" where
  "HIGH_RISK_TOOLS = {''app_tool'', ''memory_tool''}"

definition MEDIUM_RISK_TOOLS :: "string set" where
  "MEDIUM_RISK_TOOLS =
     {''type_tool'', ''click_tool'', ''drag_tool'', ''shortcut_tool'', ''multi_edit_tool''}"

definition LOW_RISK_TOOLS :: "string set" where
  "LOW_RISK_TOOLS =
     {''scroll_tool'', ''move_tool'', ''wait_tool'', ''scrape_tool'', ''done_tool''}"

definition get_tool_risk_level :: "string \<Rightarrow> string" where
  "get_tool_risk_level tn =
     (if tn \<in> CRITICAL_RISK_TOOLS then ''critical''
      else if tn \<in> HIGH_RISK_TOOLS then ''high''
      else if tn \<in> MEDIUM_RISK_TOOLS then ''medium''
      else ''low'')"

section \<open>The operator's console\<close>

text \<open>
  What one call of \<^verbatim>\<open>input()\<close> on the operator's console yields: a line of text, a
  \<open>KeyboardInterrupt\<close> (Ctrl-C) or an \<open>EOFError\<close> (the input is closed). The operator is
  the list of these events in the order in which they happen; reading from an exhausted
  console raises \<open>EOFError\<close>.

  A character of a line stands for the code point of the same number, so that a line is
  a text over the code points below 256. \<open>is_space\<close> holds for those of them for which
  Python's \<^verbatim>\<open>str.isspace\<close> holds, which are the ones that \<^verbatim>\<open>str.strip\<close> removes:
  the ASCII blanks and separators, U+0085 and U+00A0. \<open>lower_char\<close> is
  \<^verbatim>\<open>str.lower\<close> on these code points: the letters A to Z and the capital letters
  U+00C0 to U+00DE other than U+00D7 move up by 32.
\<close>

datatype operator_event = Line string | Interrupt | EndOfInput

datatype ask_outcome = Answer string | Raise_KeyboardInterrupt | Raise_EOFError

definition is_space :: "char \<Rightarrow> bool" where
  "is_space c = (c \<in> set [CHR '' '', CHR 0x09, CHR 0x0A, CHR 0x0B, CHR 0x0C, CHR 0x0D,
                           CHR 0x1C, CHR 0x1D, CHR 0x1E, CHR 0x1F, CHR 0x85, CHR 0xA0])"

definition strip :: "string \<Rightarrow> string" where
  "strip s = rev (dropWhile is_space (rev (dropWhile is_space s)))"

definition lower_char :: "char \<Rightarrow> char" where
  "lower_char c =
     (let n = (of_char c :: nat)
      in if (65 \<le> n \<and> n \<le> 90) \<or> (192 \<le> n \<and> n \<le> 214) \<or> (216 \<le> n \<and> n \<le> 222)
         then char_of (n + 32) else c)"

definition lower :: "string \<Rightarrow> string" where
  "lower s = map lower_char s"

text \<open>
  \<^verbatim>\<open>Prompt.ask(prompt, choices=..., default=...)\<close> of the rich library, which is not part
  of the repository: its prompt loop reads a line; an empty line returns the default; a
  line whose stripped text is one of the choices returns that text; any other line is
  refused and the prompt is shown again. An exception of the read leaves the loop. The
  second component is what is left of the operator's events.
\<close>

fun Prompt_ask ::
  "string list \<Rightarrow> string \<Rightarrow> operator_event list \<Rightarrow> ask_outcome \<times> operator_event list"
where
  "Prompt_ask choices dflt [] = (Raise_EOFError, [])"
| "Prompt_ask choices dflt (Interrupt # evs) = (Raise_KeyboardInterrupt, evs)"
| "Prompt_ask choices dflt (EndOfInput # evs) = (Raise_EOFError, evs)"
| "Prompt_ask choices dflt (Line v # evs) =
     (if v = [] then (Answer dflt, evs)
      else if strip v \<in> set choices then (Answer (strip v), evs)
      else Prompt_ask choices dflt evs)"

section \<open>Observable effects\<close>

text \<open>
  Every function of the model returns, with its result, the list of what it did, in order:
  the calls it made to the classifier, the policy, the custom approver, the backend, the
  HTTP client, the prompt and the tool, and the records it wrote to the log. A log record
  is kept as the logging statement that wrote it with the values it interpolates. What
  the console shows is not among the effects; whether the panel of a request can be
  rendered at all is part of the environment below.
\<close>

datatype log_record =
    Log_no_approval_required string
  | Log_custom_approver_failed py_exception
  | Log_requesting_approval string string
  | Log_approval_decision ApprovalResult string
  | Log_interrupted_by_user
  | Log_requests_library_required
  | Log_sent_to_slack
  | Log_slack_not_implemented
  | Log_slack_send_failed py_exception
  | Log_execution_rejected string string
  | Log_execution_timed_out string
  | Log_execution_approved string string

datatype effect =
    Log log_record
  | Call_get_tool_risk_level string
  | Call_requires_approval string string
  | Call_custom_approver ApprovalRequest
  | Call_approver ApprovalRequest
  | Call_requests_post string
  | Call_Prompt_ask
  | Call_model_validate string parameters
  | Call_invoke string parameters

section \<open>The environment of one decision\<close>

datatype post_outcome = Sent | Post_raises py_exception

text \<open>
  \<open>clock\<close> is what \<^verbatim>\<open>time.time()\<close> returns when the verdict is built (one verdict is
  built per decision), \<open>requests_importable\<close> says whether \<^verbatim>\<open>import requests\<close>
  succeeds, \<open>http_post\<close> is the outcome of \<^verbatim>\<open>requests.post\<close> followed by
  \<^verbatim>\<open>raise_for_status\<close>, and \<open>operator\<close> is what the operator does at the console.

  \<open>console_print_panel\<close> is what \<^verbatim>\<open>console.print(Panel(...))\<close> does with the panel of
  a request (lines 89 to 121 of the service): the panel text is built from the fields of
  the request alone (tool, description, risk level, step, every parameter cut at 100
  characters, the context when it is not empty) and is handed to the rich library as
  console markup. The library prints it (\<open>None\<close>) or raises; it raises \<open>MarkupError\<close>
  when a field holds a closing tag that matches no open tag, as the parameter value
  \<^verbatim>\<open>dir [/s]\<close> does. The fixed texts that are printed around the prompt, and the
  dictionary of the parameters that is printed on the answer \<open>d\<close>, are no markup of
  the request and are taken to print.

  \<open>recursion_room\<close> is the number of nested activations of
  \<^verbatim>\<open>CLIApprovalBackend.request_approval\<close> that the interpreter's recursion limit leaves
  room for where the backend is called; one more raises \<open>RecursionError\<close>.
\<close>

record environment =
  clock :: real
  requests_importable :: bool
  http_post :: post_outcome
  operator :: "operator_event list"
  console_print_panel :: "ApprovalRequest \<Rightarrow> py_exception option"
  recursion_room :: nat

section \<open>Interactive prompt backend\<close>

text \<open>
  The backend keeps a wait budget that \<^verbatim>\<open>request_approval\<close> never reads, so the
  function below does not take the backend object. It takes the room that is left for
  nested activations and what the operator does from now on, and returns what it did,
  what is left of the operator's events, and the verdict or the exception that leaves it.

  The panel is printed before the \<^verbatim>\<open>try\<close> block, so an exception of the rendering
  leaves the function. On the answer \<open>d\<close> the source calls itself inside the
  \<^verbatim>\<open>try\<close> block: a \<open>KeyboardInterrupt\<close> or an \<open>EOFError\<close> that leaves the
  nested call is caught by the handler of the calling activation, any other exception
  passes through it.
\<close>

record CLIApprovalBackend =
  cli_timeout :: int

definition CLIApprovalBackend_init :: "int \<Rightarrow> CLIApprovalBackend" where
  "CLIApprovalBackend_init t = \<lparr>cli_timeout = t\<rparr>"

fun CLIApprovalBackend_request_approval ::
  "environment \<Rightarrow> nat \<Rightarrow> ApprovalRequest \<Rightarrow> operator_event list
     \<Rightarrow> effect list \<times> operator_event list \<times> (py_exception + ApprovalResponse)"
where
  "CLIApprovalBackend_request_approval env 0 request evs = ([], evs, Inl RecursionError)"
| "CLIApprovalBackend_request_approval env (Suc room) request evs =
     (case console_print_panel env request of
        Some e \<Rightarrow> ([], evs, Inl e)
      | None \<Rightarrow>
          (case Prompt_ask [''y'', ''n'', ''d''] ''y'' evs of
             (Answer choice, rest) \<Rightarrow>
               if lower choice = ''y'' then
                 ([Call_Prompt_ask], rest,
                  Inr \<lparr>result = APPROVED, message = ''Approved via CLI'',
                       approved_by = ''human'', timestamp = clock env\<rparr>)
               else if lower choice = ''d'' then
                 (case CLIApprovalBackend_request_approval env room request rest of
                    (fx, rest', Inr response) \<Rightarrow> (Call_Prompt_ask # fx, rest', Inr response)
                  | (fx, rest', Inl e) \<Rightarrow>
                      if e = KeyboardInterrupt \<or> e = EOFError then
                        (Call_Prompt_ask # fx @ [Log Log_interrupted_by_user], rest',
                         Inr \<lparr>result = REJECTED, message = ''Interrupted by user'',
                              approved_by = ''human'', timestamp = clock env\<rparr>)
                      else (Call_Prompt_ask # fx, rest', Inl e))
               else
                 ([Call_Prompt_ask], rest,
                  Inr \<lparr>result = REJECTED, message = ''Rejected via CLI'',
                       approved_by = ''human'', timestamp = clock env\<rparr>)
           | (Raise_KeyboardInterrupt, rest) \<Rightarrow>
               ([Call_Prompt_ask, Log Log_interrupted_by_user], rest,
                Inr \<lparr>result = REJECTED, message = ''Interrupted by user'',
                     approved_by = ''human'', timestamp = clock env\<rparr>)
           | (Raise_EOFError, rest) \<Rightarrow>
               ([Call_Prompt_ask, Log Log_interrupted_by_user], rest,
                Inr \<lparr>result = REJECTED, message = ''Interrupted by user'',
                     approved_by = ''human'', timestamp = clock env\<rparr>)))"

section \<open>Slack backend\<close>

record SlackApprovalBackend =
  webhook_url :: string
  slack_token :: "string option"
  slack_timeout :: int

definition SlackApprovalBackend_init ::
  "string \<Rightarrow> string option \<Rightarrow> int \<Rightarrow> SlackApprovalBackend" where
  "SlackApprovalBackend_init url token t =
     \<lparr>webhook_url = url, slack_token = token, slack_timeout = t\<rparr>"

text \<open>Python's truth value of an optional string: \<open>None\<close> and the empty string are false.\<close>

definition truthy :: "string option \<Rightarrow> bool" where
  "truthy s = (case s of None \<Rightarrow> False | Some t \<Rightarrow> t \<noteq> [])"

text \<open>
  The message that is posted (tool, risk badge, description, parameters, context, and the
  buttons when a token is set) only goes to the HTTP client and is not part of the model.

  After a send that succeeded the interactive backend is called inside the
  \<^verbatim>\<open>try\<close> block of the send (lines 298 and 302). An \<open>Exception\<close> that leaves
  that call is therefore caught by the handler of line 304, which logs it as a failed send
  and calls the interactive backend once more, outside the \<^verbatim>\<open>try\<close> block, on
  what is left of the operator's events; what leaves the second call leaves the function.
\<close>

definition SlackApprovalBackend_request_approval ::
  "SlackApprovalBackend \<Rightarrow> environment \<Rightarrow> ApprovalRequest
     \<Rightarrow> effect list \<times> (py_exception + ApprovalResponse)"
where
  "SlackApprovalBackend_request_approval self env request =
     (if \<not> requests_importable env then
        ([Log Log_requests_library_required],
         Inr \<lparr>result = REJECTED, message = ''Slack integration not available'',
              approved_by = ''system'', timestamp = clock env\<rparr>)
      else
        (case http_post env of
           Sent \<Rightarrow>
             (case CLIApprovalBackend_request_approval env (recursion_room env) request
                     (operator env) of
                (fx, rest, Inr response) \<Rightarrow>
                  ([Call_requests_post (webhook_url self), Log Log_sent_to_slack]
                     @ (if truthy (slack_token self) then [Log Log_slack_not_implemented] else [])
                     @ fx,
                   Inr response)
              | (fx, rest, Inl e) \<Rightarrow>
                  if isinstance_Exception e then
                    (case CLIApprovalBackend_request_approval env (recursion_room env) request
                            rest of
                       (fx', rest', r) \<Rightarrow>
                         ([Call_requests_post (webhook_url self), Log Log_sent_to_slack]
                            @ (if truthy (slack_token self)
                               then [Log Log_slack_not_implemented] else [])
                            @ fx @ [Log (Log_slack_send_failed e)] @ fx',
                          r))
                  else
                    ([Call_requests_post (webhook_url self), Log Log_sent_to_slack]
                       @ (if truthy (slack_token self)
                          then [Log Log_slack_not_implemented] else [])
                       @ fx,
                     Inl e))
         | Post_raises e \<Rightarrow>
             if isinstance_Exception e then
               (case CLIApprovalBackend_request_approval env (recursion_room env) request
                       (operator env) of
                  (fx, rest, r) \<Rightarrow>
                    ([Call_requests_post (webhook_url self), Log (Log_slack_send_failed e)] @ fx,
                     r))
             else ([Call_requests_post (webhook_url self)], Inl e)))"

section \<open>Approval service\<close>

datatype approver_object =
    CLI_approver CLIApprovalBackend
  | Slack_approver SlackApprovalBackend

type_synonym approver_callback = "ApprovalRequest \<Rightarrow> py_exception + ApprovalResponse"

record HITLApprovalService =
  backend :: ApprovalBackend
  require_approval_for :: "string set option"
  min_risk_level :: string
  custom_approver :: "approver_callback option"
  approver :: "approver_object option"

definition HITLApprovalService_init ::
  "ApprovalBackend \<Rightarrow> string set option \<Rightarrow> string \<Rightarrow> string option \<Rightarrow> string option
     \<Rightarrow> approver_callback option \<Rightarrow> py_exception + HITLApprovalService"
where
  "HITLApprovalService_init b required min_level slack_webhook_url token callback =
     (let service = (\<lambda>a. \<lparr>backend = b, require_approval_for = required,
                            min_risk_level = min_level, custom_approver = callback,
                            approver = a\<rparr>)
      in case b of
           CLI \<Rightarrow> Inr (service (Some (CLI_approver (CLIApprovalBackend_init 60))))
         | SLACK \<Rightarrow>
             (case slack_webhook_url of
                None \<Rightarrow> Inl (ValueError ''slack_webhook_url required for Slack backend'')
              | Some url \<Rightarrow>
                  if url = [] then
                    Inl (ValueError ''slack_webhook_url required for Slack backend'')
                  else Inr (service (Some (Slack_approver
                              (SlackApprovalBackend_init url token 300)))))
         | AUTO_APPROVE \<Rightarrow> Inr (service None)
         | WEBHOOK \<Rightarrow> Inr (service (Some (CLI_approver (CLIApprovalBackend_init 60)))))"

definition risk_hierarchy :: "string \<rightharpoonup> int" where
  "risk_hierarchy = map_of [(''critical'', 4), (''high'', 3), (''medium'', 2), (''low'', 1)]"

definition dict_get :: "('k \<rightharpoonup> 'v) \<Rightarrow> 'k \<Rightarrow> 'v \<Rightarrow> 'v" where
  "dict_get d k dflt = (case d k of None \<Rightarrow> dflt | Some v \<Rightarrow> v)"

definition requires_approval :: "HITLApprovalService \<Rightarrow> string \<Rightarrow> string \<Rightarrow> bool" where
  "requires_approval self tn rl =
     (case require_approval_for self of
        Some required \<Rightarrow> tn \<in> required
      | None \<Rightarrow>
          (let min_level = dict_get risk_hierarchy (min_risk_level self) 3;
               tool_level = dict_get risk_hierarchy rl 2
           in tool_level \<ge> min_level))"

definition approver_request_approval ::
  "approver_object \<Rightarrow> environment \<Rightarrow> ApprovalRequest
     \<Rightarrow> effect list \<times> (py_exception + ApprovalResponse)"
where
  "approver_request_approval a env request =
     (case a of
        CLI_approver cli \<Rightarrow>
          (case CLIApprovalBackend_request_approval env (recursion_room env) request
                  (operator env) of
             (fx, rest, r) \<Rightarrow> (fx, r))
      | Slack_approver slack \<Rightarrow> SlackApprovalBackend_request_approval slack env request)"

text \<open>
  The last part of \<^verbatim>\<open>HITLApprovalService.request_approval\<close> (lines 431 to 438):
  the request goes to the backend object and its verdict is logged and returned. A
  service without a backend object raises \<open>AttributeError\<close> at the call.
\<close>

definition request_via_backend ::
  "HITLApprovalService \<Rightarrow> environment \<Rightarrow> ApprovalRequest
     \<Rightarrow> effect list \<times> (py_exception + ApprovalResponse)"
where
  "request_via_backend self env request =
     (case approver self of
        None \<Rightarrow>
          ([Log (Log_requesting_approval (tool_name request) (risk_level request))],
           Inl (AttributeError
                  ([CHR 0x27] @ ''NoneType'' @ [CHR 0x27] @ '' object has no attribute ''
                     @ [CHR 0x27] @ ''request_approval'' @ [CHR 0x27])))
      | Some a \<Rightarrow>
          (case approver_request_approval a env request of
             (fx, Inl e) \<Rightarrow>
               ([Log (Log_requesting_approval (tool_name request) (risk_level request)),
                 Call_approver request] @ fx,
                Inl e)
           | (fx, Inr response) \<Rightarrow>
               ([Log (Log_requesting_approval (tool_name request) (risk_level request)),
                 Call_approver request] @ fx
                  @ [Log (Log_approval_decision (result response) (approved_by response))],
                Inr response)))"

definition request_approval ::
  "HITLApprovalService \<Rightarrow> environment \<Rightarrow> string \<Rightarrow> string \<Rightarrow> parameters \<Rightarrow> int \<Rightarrow> string
     \<Rightarrow> effect list \<times> (py_exception + ApprovalResponse)"
where
  "request_approval self env tn td params step ctx =
     (if backend self = AUTO_APPROVE then
        ([], Inr \<lparr>result = APPROVED, message = ''Auto-approved'',
                   approved_by = ''system'', timestamp = clock env\<rparr>)
      else
        (let rl = get_tool_risk_level tn in
         if \<not> requires_approval self tn rl then
           ([Call_get_tool_risk_level tn, Call_requires_approval tn rl,
             Log (Log_no_approval_required tn)],
            Inr \<lparr>result = APPROVED, message = ''Auto-approved (low risk)'',
                 approved_by = ''system'', timestamp = clock env\<rparr>)
         else
           (let request = \<lparr>tool_name = tn, tool_description = td, parameters = params,
                            step_number = step, context' = ctx, risk_level = rl\<rparr>;
                checked = [Call_get_tool_risk_level tn, Call_requires_approval tn rl]
            in case custom_approver self of
                 None \<Rightarrow>
                   (case request_via_backend self env request of
                      (fx, r) \<Rightarrow> (checked @ fx, r))
               | Some callback \<Rightarrow>
                   (case callback request of
                      Inr response \<Rightarrow> (checked @ [Call_custom_approver request], Inr response)
                    | Inl e \<Rightarrow>
                        if isinstance_Exception e then
                          (case request_via_backend self env request of
                             (fx, r) \<Rightarrow>
                               (checked @ [Call_custom_approver request,
                                           Log (Log_custom_approver_failed e)] @ fx,
                                r))
                        else (checked @ [Call_custom_approver request], Inl e)))))"

section \<open>Tool registry (windows\_use/agent/registry/service.py)\<close>

text \<open>
  The declarations of \<open>ToolResult\<close>, \<open>Tool\<close> and \<open>Desktop\<close> are not among the sources;
  they are taken from how \<^verbatim>\<open>Registry.execute\<close> uses them: a result has the fields
  \<open>is_success\<close>, \<open>content\<close> and \<open>error\<close>; a tool has a name, a description, a
  validator of its arguments and the function to invoke; a desktop is only handed on.
\<close>

typedecl Desktop

record ToolResult =
  is_success :: bool
  content :: "string option"
  error :: "string option"

record Tool =
  name :: string
  description :: string
  model_validate :: "parameters \<Rightarrow> py_exception + parameters"
  invoke :: "Desktop option \<Rightarrow> parameters \<Rightarrow> py_exception + string"

record Registry =
  tools :: "Tool list"
  tools_registry :: "string \<rightharpoonup> Tool"
  hitl_service :: "HITLApprovalService option"

text \<open>The dictionary comprehension keeps, for a name that occurs twice, the later tool.\<close>

definition registry :: "Tool list \<Rightarrow> (string \<rightharpoonup> Tool)" where
  "registry ts = map_of (rev (map (\<lambda>t. (name t, t)) ts))"

definition Registry_init :: "Tool list \<Rightarrow> HITLApprovalService option \<Rightarrow> Registry" where
  "Registry_init ts hitl =
     \<lparr>tools = ts, tools_registry = registry ts, hitl_service = hitl\<rparr>"

text \<open>\<^verbatim>\<open>str(error)\<close>: the text of an exception.\<close>

fun str_exception :: "py_exception \<Rightarrow> string" where
  "str_exception KeyboardInterrupt = []"
| "str_exception SystemExit = []"
| "str_exception EOFError = []"
| "str_exception (ImportError s) = s"
| "str_exception (ValueError s) = s"
| "str_exception (AttributeError s) = s"
| "str_exception (MarkupError s) = s"
| "str_exception RecursionError = ''maximum recursion depth exceeded''"
| "str_exception (Exception s) = s"

text \<open>
  The \<^verbatim>\<open>try\<close> block at the end of \<^verbatim>\<open>Registry.execute\<close>: the arguments are
  validated, the tool is invoked, and an \<open>Exception\<close> of either becomes a failed result.
\<close>

definition invoke_tool ::
  "Tool \<Rightarrow> Desktop option \<Rightarrow> parameters \<Rightarrow> effect list \<times> (py_exception + ToolResult)"
where
  "invoke_tool tool desktop kwargs =
     (case model_validate tool kwargs of
        Inl e \<Rightarrow>
          ([Call_model_validate (name tool) kwargs],
           if isinstance_Exception e then
             Inr \<lparr>is_success = False, content = None, error = Some (str_exception e)\<rparr>
           else Inl e)
      | Inr args \<Rightarrow>
          (case invoke tool desktop args of
             Inl e \<Rightarrow>
               ([Call_model_validate (name tool) kwargs, Call_invoke (name tool) args],
                if isinstance_Exception e then
                  Inr \<lparr>is_success = False, content = None, error = Some (str_exception e)\<rparr>
                else Inl e)
           | Inr c \<Rightarrow>
               ([Call_model_validate (name tool) kwargs, Call_invoke (name tool) args],
                Inr \<lparr>is_success = True, content = Some c, error = None\<rparr>)))"

definition execute ::
  "Registry \<Rightarrow> environment \<Rightarrow> string \<Rightarrow> Desktop option \<Rightarrow> int \<Rightarrow> parameters
     \<Rightarrow> effect list \<times> (py_exception + ToolResult)"
where
  "execute self env tn desktop step kwargs =
     (case tools_registry self tn of
        None \<Rightarrow>
          ([], Inr \<lparr>is_success = False, content = None,
                     error = Some (''Tool '' @ [CHR 0x27] @ tn @ [CHR 0x27] @ '' not found.'')\<rparr>)
      | Some tool \<Rightarrow>
          (case hitl_service self of
             None \<Rightarrow> invoke_tool tool desktop kwargs
           | Some service \<Rightarrow>
               (case request_approval service env tn (description tool) kwargs step
                       (''Agent requesting to execute '' @ tn) of
                  (fx, Inl e) \<Rightarrow> (fx, Inl e)
                | (fx, Inr approval_response) \<Rightarrow>
                    if result approval_response = REJECTED then
                      (fx @ [Log (Log_execution_rejected tn (message approval_response))],
                       Inr \<lparr>is_success = False, content = None,
                            error = Some (''Tool execution rejected by human approval: ''
                                           @ message approval_response)\<rparr>)
                    else if result approval_response = TIMEOUT then
                      (fx @ [Log (Log_execution_timed_out tn)],
                       Inr \<lparr>is_success = False, content = None,
                            error = Some ''Tool execution approval timed out''\<rparr>)
                    else
                      (case invoke_tool tool desktop kwargs of
                         (fx', r) \<Rightarrow>
                           (fx @ [Log (Log_execution_approved
                                         (approved_by approval_response) tn)] @ fx',
                            r)))))"

section \<open>Vocabulary of the properties\<close>

text \<open>
  The risk tiers and their total order \<open>low < medium < high < critical\<close>, as the
  specification states them; \<open>rank\<close> is the position of a tier in that order.
\<close>

datatype RiskTier = Low | Medium | High | Critical

fun tier_name :: "RiskTier \<Rightarrow> string" where
  "tier_name Low = ''low''"
| "tier_name Medium = ''medium''"
| "tier_name High = ''high''"
| "tier_name Critical = ''critical''"

fun rank :: "RiskTier \<Rightarrow> nat" where
  "rank Low = 0"
| "rank Medium = 1"
| "rank High = 2"
| "rank Critical = 3"

text \<open>
  An operator event after which the interactive prompt is still waiting for a decision:
  a line that the prompt refuses, or the answer \<open>d\<close>, which shows the parameters and
  asks again in a nested activation (\<open>asks_details\<close>).
\<close>

definition asks_details :: "operator_event \<Rightarrow> bool" where
  "asks_details ev =
     (case ev of
        Line v \<Rightarrow> v \<noteq> [] \<and> strip v \<in> set [''y'', ''n'', ''d''] \<and> lower (strip v) = ''d''
      | _ \<Rightarrow> False)"

definition keeps_asking :: "operator_event \<Rightarrow> bool" where
  "keeps_asking ev =
     (case ev of
        Line v \<Rightarrow> v \<noteq> [] \<and> (strip v \<notin> set [''y'', ''n'', ''d''] \<or> lower (strip v) = ''d'')
      | _ \<Rightarrow> False)"

text \<open>
  The wait for the operator is interrupted: the next read raises \<open>KeyboardInterrupt\<close>
  or \<open>EOFError\<close>, the latter also when nothing is left to read.
\<close>

fun interrupted :: "operator_event list \<Rightarrow> bool" where
  "interrupted [] = True"
| "interrupted (Interrupt # _) = True"
| "interrupted (EndOfInput # _) = True"
| "interrupted (Line _ # _) = False"

text \<open>Kinds of effects: calls of the backend object, of the custom approver, of a tool.\<close>

fun is_Call_approver :: "effect \<Rightarrow> bool" where
  "is_Call_approver (Call_approver _) = True"
| "is_Call_approver _ = False"

fun is_Call_custom_approver :: "effect \<Rightarrow> bool" where
  "is_Call_custom_approver (Call_custom_approver _) = True"
| "is_Call_custom_approver _ = False"

fun touches_tool :: "effect \<Rightarrow> bool" where
  "touches_tool (Call_model_validate _ _) = True"
| "touches_tool (Call_invoke _ _) = True"
| "touches_tool _ = False"

fun inside_backend :: "effect \<Rightarrow> bool" where
  "inside_backend (Log _) = True"
| "inside_backend (Call_requests_post _) = True"
| "inside_backend Call_Prompt_ask = True"
| "inside_backend _ = False"

section \<open>Example configurations\<close>

text \<open>
  The custom approver of the repository's unit test \<^verbatim>\<open>test_custom_approver\<close>, which
  rejects every shell command and approves everything else, and approvers that fail,
  are interrupted, leave the interpreter or time out.
\<close>

definition test_custom_approver :: approver_callback where
  "test_custom_approver request =
     (if tool_name request = ''shell_tool''
      then Inr \<lparr>result = REJECTED, message = ''Shell commands not allowed'',
                approved_by = ''custom_policy'', timestamp = 0\<rparr>
      else Inr \<lparr>result = APPROVED, message = ''Approved by custom policy'',
                approved_by = ''custom_policy'', timestamp = 0\<rparr>)"

definition failing_approver :: approver_callback where
  "failing_approver request = Inl (Exception ''policy service down'')"

definition interrupted_approver :: approver_callback where
  "interrupted_approver request = Inl KeyboardInterrupt"

definition exiting_approver :: approver_callback where
  "exiting_approver request = Inl SystemExit"

definition timeout_approver :: approver_callback where
  "timeout_approver request =
     Inr \<lparr>result = TIMEOUT, message = ''quorum lost'',
          approved_by = ''custom_policy'', timestamp = 0\<rparr>"

text \<open>
  A service with the interactive backend that consults a custom approver for every tool
  (threshold \<open>low\<close>), a request for a shell command, a tool that accepts any arguments,
  and an environment in which the operator does what the given events say, every panel
  is printed and a thousand nested activations fit.
\<close>

definition service_with :: "approver_callback \<Rightarrow> HITLApprovalService" where
  "service_with callback =
     \<lparr>backend = CLI, require_approval_for = None, min_risk_level = ''low'',
      custom_approver = Some callback,
      approver = Some (CLI_approver (CLIApprovalBackend_init 60))\<rparr>"

definition shell_request :: ApprovalRequest where
  "shell_request =
     \<lparr>tool_name = ''shell_tool'', tool_description = ''Execute shell command'',
      parameters = [(''command'', ''dir'')], step_number = 1, context' = [],
      risk_level = ''critical''\<rparr>"

definition example_tool :: "string \<Rightarrow> Tool" where
  "example_tool n =
     \<lparr>name = n, description = ''Example tool'',
      model_validate = Inr, invoke = (\<lambda>desktop args. Inr ''done'')\<rparr>"

definition operator_does :: "operator_event list \<Rightarrow> environment" where
  "operator_does evs =
     \<lparr>clock = 0, requests_importable = True, http_post = Sent, operator = evs,
      console_print_panel = (\<lambda>request. None), recursion_room = 1000\<rparr>"



section \<open>Auxiliary facts\<close>

declare CLIApprovalBackend_request_approval.simps [simp del]

lemma lower_choices [simp]:
  "lower ''y'' = ''y''" "lower ''n'' = ''n''" "lower ''d'' = ''d''"
  by (simp_all add: lower_def lower_char_def)

lemma CLI_unfold:
  assumes "0 < room"
  shows "CLIApprovalBackend_request_approval env room request evs =
     (case console_print_panel env request of
        Some e \<Rightarrow> ([], evs, Inl e)
      | None \<Rightarrow>
          (case Prompt_ask [''y'', ''n'', ''d''] ''y'' evs of
             (Answer choice, rest) \<Rightarrow>
               if lower choice = ''y'' then
                 ([Call_Prompt_ask], rest,
                  Inr \<lparr>result = APPROVED, message = ''Approved via CLI'',
                       approved_by = ''human'', timestamp = clock env\<rparr>)
               else if lower choice = ''d'' then
                 (case CLIApprovalBackend_request_approval env (room - 1) request rest of
                    (fx, rest', Inr response) \<Rightarrow> (Call_Prompt_ask # fx, rest', Inr response)
                  | (fx, rest', Inl e) \<Rightarrow>
                      if e = KeyboardInterrupt \<or> e = EOFError then
                        (Call_Prompt_ask # fx @ [Log Log_interrupted_by_user], rest',
                         Inr \<lparr>result = REJECTED, message = ''Interrupted by user'',
                              approved_by = ''human'', timestamp = clock env\<rparr>)
                      else (Call_Prompt_ask # fx, rest', Inl e))
               else
                 ([Call_Prompt_ask], rest,
                  Inr \<lparr>result = REJECTED, message = ''Rejected via CLI'',
                       approved_by = ''human'', timestamp = clock env\<rparr>)
           | (Raise_KeyboardInterrupt, rest) \<Rightarrow>
               ([Call_Prompt_ask, Log Log_interrupted_by_user], rest,
                Inr \<lparr>result = REJECTED, message = ''Interrupted by user'',
                     approved_by = ''human'', timestamp = clock env\<rparr>)
           | (Raise_EOFError, rest) \<Rightarrow>
               ([Call_Prompt_ask, Log Log_interrupted_by_user], rest,
                Inr \<lparr>result = REJECTED, message = ''Interrupted by user'',
                     approved_by = ''human'', timestamp = clock env\<rparr>)))"
proof -
  from assms obtain r where r: "room = Suc r"
    by (cases room) auto
  show ?thesis
    unfolding r diff_Suc_1
    by (rule CLIApprovalBackend_request_approval.simps(2))
qed

lemma CLI_refused:
  assumes "console_print_panel env request = None"
    and "v \<noteq> []" and "strip v \<notin> set [''y'', ''n'', ''d'']"
  shows "CLIApprovalBackend_request_approval env (Suc room) request (Line v # evs) =
           CLIApprovalBackend_request_approval env (Suc room) request evs"
  using assms by (simp add: CLIApprovalBackend_request_approval.simps)

lemma CLI_details:
  assumes "console_print_panel env request = None"
    and "asks_details ev"
    and "snd (snd (CLIApprovalBackend_request_approval env room request evs)) = Inr verdict"
  shows "snd (snd (CLIApprovalBackend_request_approval env (Suc room) request (ev # evs))) =
           Inr verdict"
    and "set (fst (CLIApprovalBackend_request_approval env room request evs))
           \<subseteq> set (fst (CLIApprovalBackend_request_approval env (Suc room) request (ev # evs)))"
proof -
  from assms(2) obtain v where ev: "ev = Line v" and v: "v \<noteq> []"
    and choice: "strip v \<in> set [''y'', ''n'', ''d'']" and d: "lower (strip v) = ''d''"
    by (auto simp: asks_details_def split: operator_event.splits)
  from ev v choice
  have asked: "Prompt_ask [''y'', ''n'', ''d''] ''y'' (ev # evs) = (Answer (strip v), evs)"
    by simp
  obtain fx rest where nested:
    "CLIApprovalBackend_request_approval env room request evs = (fx, rest, Inr verdict)"
    using assms(3) by (cases "CLIApprovalBackend_request_approval env room request evs") auto
  from assms(1) asked d nested
  have "CLIApprovalBackend_request_approval env (Suc room) request (ev # evs) =
          (Call_Prompt_ask # fx, rest, Inr verdict)"
    by (simp add: CLIApprovalBackend_request_approval.simps)
  with nested
  show "snd (snd (CLIApprovalBackend_request_approval env (Suc room) request (ev # evs))) =
           Inr verdict"
    and "set (fst (CLIApprovalBackend_request_approval env room request evs))
           \<subseteq> set (fst (CLIApprovalBackend_request_approval env (Suc room) request (ev # evs)))"
    by auto
qed

lemma CLI_interrupted:
  assumes "console_print_panel env request = None" and "interrupted rest"
  shows "fst (CLIApprovalBackend_request_approval env (Suc room) request rest) =
           [Call_Prompt_ask, Log Log_interrupted_by_user]"
    and "snd (snd (CLIApprovalBackend_request_approval env (Suc room) request rest)) =
           Inr \<lparr>result = REJECTED, message = ''Interrupted by user'',
                approved_by = ''human'', timestamp = clock env\<rparr>"
  using assms
  by (cases rest rule: interrupted.cases;
      simp add: CLIApprovalBackend_request_approval.simps)+

lemma CLI_effects:
  "list_all inside_backend (fst (CLIApprovalBackend_request_approval env room request evs))"
proof (induction room arbitrary: evs)
  case 0
  show ?case by (simp add: CLIApprovalBackend_request_approval.simps)
next
  case (Suc room)
  show ?case
  proof (cases "Prompt_ask [''y'', ''n'', ''d''] ''y'' evs")
    case (Pair out rest)
    obtain fx rest' r where nested:
      "CLIApprovalBackend_request_approval env room request rest = (fx, rest', r)"
      by (cases "CLIApprovalBackend_request_approval env room request rest") auto
    with Suc [of rest] have "list_all inside_backend fx" by simp
    with Pair nested show ?thesis
      by (simp add: CLIApprovalBackend_request_approval.simps
            split: option.splits ask_outcome.splits sum.splits)
  qed
qed


lemma Slack_unavailable:
  assumes "\<not> requests_importable env"
  shows "SlackApprovalBackend_request_approval self env request =
        ([Log Log_requests_library_required],
         Inr \<lparr>result = REJECTED, message = ''Slack integration not available'',
              approved_by = ''system'', timestamp = clock env\<rparr>)"
  using assms by (simp add: SlackApprovalBackend_request_approval_def)

lemma Slack_sent:
  assumes "requests_importable env" and "http_post env = Sent"
    and "CLIApprovalBackend_request_approval env (recursion_room env) request (operator env)
           = (fx, rest, Inr verdict)"
  shows "SlackApprovalBackend_request_approval self env request =
        ([Call_requests_post (webhook_url self), Log Log_sent_to_slack]
           @ (if truthy (slack_token self) then [Log Log_slack_not_implemented] else [])
           @ fx,
         Inr verdict)"
  using assms by (simp add: SlackApprovalBackend_request_approval_def)

lemma Slack_sent_prompt_raises:
  assumes "requests_importable env" and "http_post env = Sent"
    and "CLIApprovalBackend_request_approval env (recursion_room env) request (operator env)
           = (fx, rest, Inl e)"
    and "isinstance_Exception e"
  shows "SlackApprovalBackend_request_approval self env request =
        ([Call_requests_post (webhook_url self), Log Log_sent_to_slack]
           @ (if truthy (slack_token self) then [Log Log_slack_not_implemented] else [])
           @ fx @ [Log (Log_slack_send_failed e)]
           @ fst (CLIApprovalBackend_request_approval env (recursion_room env) request rest),
         snd (snd (CLIApprovalBackend_request_approval env (recursion_room env) request rest)))"
  using assms by (simp add: SlackApprovalBackend_request_approval_def case_prod_beta)

lemma Slack_sent_prompt_escapes:
  assumes "requests_importable env" and "http_post env = Sent"
    and "CLIApprovalBackend_request_approval env (recursion_room env) request (operator env)
           = (fx, rest, Inl e)"
    and "\<not> isinstance_Exception e"
  shows "SlackApprovalBackend_request_approval self env request =
        ([Call_requests_post (webhook_url self), Log Log_sent_to_slack]
           @ (if truthy (slack_token self) then [Log Log_slack_not_implemented] else [])
           @ fx,
         Inl e)"
  using assms by (simp add: SlackApprovalBackend_request_approval_def)

lemma Slack_send_failed:
  assumes "requests_importable env" and "http_post env = Post_raises e"
    and "isinstance_Exception e"
  shows "SlackApprovalBackend_request_approval self env request =
        ([Call_requests_post (webhook_url self), Log (Log_slack_send_failed e)]
           @ fst (CLIApprovalBackend_request_approval env (recursion_room env) request
                    (operator env)),
         snd (snd (CLIApprovalBackend_request_approval env (recursion_room env) request
                    (operator env))))"
  using assms by (simp add: SlackApprovalBackend_request_approval_def case_prod_beta)

lemma Slack_send_escapes:
  assumes "requests_importable env" and "http_post env = Post_raises e"
    and "\<not> isinstance_Exception e"
  shows "SlackApprovalBackend_request_approval self env request =
        ([Call_requests_post (webhook_url self)], Inl e)"
  using assms by (simp add: SlackApprovalBackend_request_approval_def)

lemma Slack_effects:
  "list_all inside_backend (fst (SlackApprovalBackend_request_approval self env request))"
proof (cases "requests_importable env")
  case False
  then show ?thesis by (simp add: Slack_unavailable)
next
  case True
  show ?thesis
  proof (cases "http_post env")
    case Sent
    obtain fx rest r where first:
      "CLIApprovalBackend_request_approval env (recursion_room env) request (operator env)
         = (fx, rest, r)"
      by (cases "CLIApprovalBackend_request_approval env (recursion_room env) request
                   (operator env)") auto
    have fx: "list_all inside_backend fx"
      using CLI_effects [of env "recursion_room env" request "operator env"] first by simp
    show ?thesis
    proof (cases r)
      case (Inr verdict)
      with True Sent first fx show ?thesis by (simp add: Slack_sent)
    next
      case (Inl e)
      with True Sent first fx show ?thesis
        by (cases "isinstance_Exception e")
           (simp_all add: Slack_sent_prompt_raises Slack_sent_prompt_escapes CLI_effects)
    qed
  next
    case (Post_raises e)
    with True show ?thesis
      by (cases "isinstance_Exception e")
         (simp_all add: Slack_send_failed Slack_send_escapes CLI_effects)
  qed
qed

lemma approver_effects:
  "list_all inside_backend (fst (approver_request_approval a env request))"
  by (cases a)
     (simp_all add: approver_request_approval_def Slack_effects CLI_effects case_prod_beta)

lemma inside_backend_only:
  "inside_backend x \<Longrightarrow>
     \<not> is_Call_approver x \<and> \<not> is_Call_custom_approver x \<and> \<not> touches_tool x"
  by (cases x) simp_all

lemma inside_backend_filters:
  assumes "list_all inside_backend fx"
  shows "filter is_Call_approver fx = []" and "filter is_Call_custom_approver fx = []"
    and "filter touches_tool fx = []"
  using assms by (induction fx) (simp_all add: inside_backend_only)

lemma init_fields:
  assumes "HITLApprovalService_init b required min_level url token callback = Inr self"
  shows "backend self = b" and "require_approval_for self = required"
    and "min_risk_level self = min_level" and "custom_approver self = callback"
    and "b \<noteq> AUTO_APPROVE \<Longrightarrow> \<exists>a. approver self = Some a"
  using assms
  by (auto simp: HITLApprovalService_init_def Let_def
        split: ApprovalBackend.splits option.splits if_splits)

lemma request_via_backend_effects:
  assumes "approver self = Some a"
  shows "length (filter is_Call_approver (fst (request_via_backend self env request))) = 1"
    and "filter is_Call_custom_approver (fst (request_via_backend self env request)) = []"
    and "filter touches_tool (fst (request_via_backend self env request)) = []"
  using assms inside_backend_filters [OF approver_effects [of a env request]]
  by (simp_all add: request_via_backend_def case_prod_beta split: sum.splits)

lemma request_approval_no_tool:
  "filter touches_tool (fst (request_approval service env tn td params step ctx)) = []"
proof (cases "approver service")
  case None
  then show ?thesis
    by (auto simp: request_approval_def request_via_backend_def Let_def case_prod_beta
          split: option.splits sum.splits)
next
  case (Some a)
  show ?thesis
    using request_via_backend_effects(3) [OF Some]
    by (auto simp: request_approval_def Let_def case_prod_beta
          split: option.splits sum.splits)
qed

section \<open>Risk classification and policy\<close>

text \<open>
  C8. \<open>get_tool_risk_level\<close> is a function of the tool name alone, defined on every
  string: a name in the critical set is classified \<open>critical\<close>, a name in the high set
  \<open>high\<close>, a name in the medium set \<open>medium\<close>, the sets being tested in this order;
  every other name, whether it is in the low set or in no set, is classified \<open>low\<close>.
\<close>

theorem get_tool_risk_level_classifies:
  "(tn \<in> CRITICAL_RISK_TOOLS \<longrightarrow> get_tool_risk_level tn = ''critical'') \<and>
   (tn \<in> HIGH_RISK_TOOLS \<longrightarrow> get_tool_risk_level tn = ''high'') \<and>
   (tn \<in> MEDIUM_RISK_TOOLS \<longrightarrow> get_tool_risk_level tn = ''medium'') \<and>
   (tn \<in> LOW_RISK_TOOLS \<longrightarrow> get_tool_risk_level tn = ''low'') \<and>
   (tn \<notin> CRITICAL_RISK_TOOLS \<union> HIGH_RISK_TOOLS \<union> MEDIUM_RISK_TOOLS
      \<longrightarrow> get_tool_risk_level tn = ''low'') \<and>
   get_tool_risk_level tn =
     (if tn \<in> CRITICAL_RISK_TOOLS then ''critical''
      else if tn \<in> HIGH_RISK_TOOLS then ''high''
      else if tn \<in> MEDIUM_RISK_TOOLS then ''medium'' else ''low'') \<and>
   get_tool_risk_level tn \<in> {''critical'', ''high'', ''medium'', ''low''}"
  by (auto simp: get_tool_risk_level_def CRITICAL_RISK_TOOLS_def HIGH_RISK_TOOLS_def
        MEDIUM_RISK_TOOLS_def LOW_RISK_TOOLS_def)

theorem get_tool_risk_level_classifies_witness:
  "''shell_tool'' \<in> CRITICAL_RISK_TOOLS \<and> get_tool_risk_level ''shell_tool'' = ''critical'' \<and>
   ''memory_tool'' \<in> HIGH_RISK_TOOLS \<and> get_tool_risk_level ''memory_tool'' = ''high'' \<and>
   ''drag_tool'' \<in> MEDIUM_RISK_TOOLS \<and> get_tool_risk_level ''drag_tool'' = ''medium'' \<and>
   ''done_tool'' \<in> LOW_RISK_TOOLS \<and> get_tool_risk_level ''done_tool'' = ''low'' \<and>
   ''unknown_tool'' \<notin> CRITICAL_RISK_TOOLS \<union> HIGH_RISK_TOOLS \<union> MEDIUM_RISK_TOOLS \<and>
   get_tool_risk_level ''unknown_tool'' = ''low''"
  using get_tool_risk_level_classifies [of "''shell_tool''"]
    get_tool_risk_level_classifies [of "''memory_tool''"]
    get_tool_risk_level_classifies [of "''drag_tool''"]
    get_tool_risk_level_classifies [of "''done_tool''"]
    get_tool_risk_level_classifies [of "''unknown_tool''"]
  by (simp add: CRITICAL_RISK_TOOLS_def HIGH_RISK_TOOLS_def
        MEDIUM_RISK_TOOLS_def LOW_RISK_TOOLS_def)

text \<open>
  C6. Without an explicit required set, for every tool name, every tier \<open>T\<close> and every
  threshold \<open>H\<close> among low, medium, high and critical, \<open>requires_approval\<close> holds exactly
  when \<open>rank T \<ge> rank H\<close>.
\<close>

theorem requires_approval_threshold:
  assumes "require_approval_for self = None" and "min_risk_level self = tier_name H"
  shows "requires_approval self tn (tier_name T) \<longleftrightarrow> rank T \<ge> rank H"
  using assms
  by (cases T; cases H)
     (simp_all add: requires_approval_def risk_hierarchy_def dict_get_def)

theorem requires_approval_threshold_witness:
  "requires_approval
     \<lparr>backend = CLI, require_approval_for = None, min_risk_level = ''high'',
      custom_approver = None, approver = Some (CLI_approver \<lparr>cli_timeout = 60\<rparr>)\<rparr>
     ''shell_tool'' ''critical'' \<and>
   \<not> requires_approval
     \<lparr>backend = CLI, require_approval_for = None, min_risk_level = ''high'',
      custom_approver = None, approver = Some (CLI_approver \<lparr>cli_timeout = 60\<rparr>)\<rparr>
     ''click_tool'' ''medium''"
  using
    requires_approval_threshold [of
      "\<lparr>backend = CLI, require_approval_for = None, min_risk_level = ''high'',
        custom_approver = None, approver = Some (CLI_approver \<lparr>cli_timeout = 60\<rparr>)\<rparr>"
      High "''shell_tool''" Critical]
    requires_approval_threshold [of
      "\<lparr>backend = CLI, require_approval_for = None, min_risk_level = ''high'',
        custom_approver = None, approver = Some (CLI_approver \<lparr>cli_timeout = 60\<rparr>)\<rparr>"
      High "''click_tool''" Medium]
  by simp

text \<open>
  C7. With an explicit required set, \<open>requires_approval\<close> holds exactly when the tool
  name is in the set, whatever the tier: two tiers give the same answer, and a tool that
  is not in the set needs no consultation even at tier critical, so that its request is
  approved on the spot.
\<close>

theorem requires_approval_explicit_set:
  assumes "require_approval_for self = Some required"
  shows "(requires_approval self tn rl \<longleftrightarrow> tn \<in> required) \<and>
         requires_approval self tn rl = requires_approval self tn rl' \<and>
         (tn \<notin> required \<longrightarrow> \<not> requires_approval self tn ''critical'') \<and>
         (tn \<notin> required \<and> backend self \<noteq> AUTO_APPROVE \<longrightarrow>
            snd (request_approval self env tn td params step ctx) =
              Inr \<lparr>result = APPROVED, message = ''Auto-approved (low risk)'',
                   approved_by = ''system'', timestamp = clock env\<rparr>)"
  using assms by (simp add: requires_approval_def request_approval_def)

theorem requires_approval_explicit_set_witness:
  "get_tool_risk_level ''shell_tool'' = ''critical'' \<and>
   \<not> requires_approval
     \<lparr>backend = CLI, require_approval_for = Some {''click_tool'', ''type_tool''},
      min_risk_level = ''low'', custom_approver = None,
      approver = Some (CLI_approver \<lparr>cli_timeout = 60\<rparr>)\<rparr>
     ''shell_tool'' ''critical'' \<and>
   requires_approval
     \<lparr>backend = CLI, require_approval_for = Some {''click_tool'', ''type_tool''},
      min_risk_level = ''low'', custom_approver = None,
      approver = Some (CLI_approver \<lparr>cli_timeout = 60\<rparr>)\<rparr>
     ''click_tool'' ''low'' \<and>
   snd (request_approval
     \<lparr>backend = CLI, require_approval_for = Some {''click_tool'', ''type_tool''},
      min_risk_level = ''low'', custom_approver = None,
      approver = Some (CLI_approver \<lparr>cli_timeout = 60\<rparr>)\<rparr>
     (operator_does [Line ''n''])
     ''shell_tool'' ''Execute shell command'' [(''command'', ''dir'')] 1 []) =
     Inr \<lparr>result = APPROVED, message = ''Auto-approved (low risk)'',
          approved_by = ''system'', timestamp = 0\<rparr>"
  using
    requires_approval_explicit_set [of
      "\<lparr>backend = CLI, require_approval_for = Some {''click_tool'', ''type_tool''},
        min_risk_level = ''low'', custom_approver = None,
        approver = Some (CLI_approver \<lparr>cli_timeout = 60\<rparr>)\<rparr>"
      "{''click_tool'', ''type_tool''}" "''shell_tool''" "''critical''" "''low''"
      "operator_does [Line ''n'']"
      "''Execute shell command''" "[(''command'', ''dir'')]" 1 "[]"]
    requires_approval_explicit_set [of
      "\<lparr>backend = CLI, require_approval_for = Some {''click_tool'', ''type_tool''},
        min_risk_level = ''low'', custom_approver = None,
        approver = Some (CLI_approver \<lparr>cli_timeout = 60\<rparr>)\<rparr>"
      "{''click_tool'', ''type_tool''}" "''click_tool''" "''low''" "''critical''"]
  by (simp add: get_tool_risk_level_def CRITICAL_RISK_TOOLS_def operator_does_def)

section \<open>Interactive prompt backend\<close>

text \<open>
  C3. Whenever the wait of the interactive prompt for the operator is interrupted, by a
  \<open>KeyboardInterrupt\<close> or by the end of the input, \<^verbatim>\<open>CLIApprovalBackend.request_approval\<close>
  logs the interruption and returns a verdict whose outcome is \<open>REJECTED\<close>, not
  \<open>APPROVED\<close> and not \<open>TIMEOUT\<close>. The wait takes place when the panel of the request
  has been printed; it may come after lines that the prompt refused and after answers
  \<open>d\<close>, each of which opens a nested activation, as far as the recursion limit has
  room for them.
\<close>

theorem cli_interrupted_rejects:
  assumes "console_print_panel env request = None"
    and "list_all keeps_asking pre"
    and "length (filter asks_details pre) < room"
    and "interrupted rest"
  shows "snd (snd (CLIApprovalBackend_request_approval env room request (pre @ rest))) =
           Inr \<lparr>result = REJECTED, message = ''Interrupted by user'',
                approved_by = ''human'', timestamp = clock env\<rparr> \<and>
         Log Log_interrupted_by_user
           \<in> set (fst (CLIApprovalBackend_request_approval env room request (pre @ rest)))"
  using assms(2,3)
proof (induction pre arbitrary: room)
  case Nil
  then obtain r where "room = Suc r" by (cases room) auto
  with CLI_interrupted [OF assms(1,4), of r] show ?case by simp
next
  case (Cons ev pre)
  from Cons.prems(1) have ev: "keeps_asking ev" and pre: "list_all keeps_asking pre"
    by simp_all
  from Cons.prems(2) obtain r where room: "room = Suc r" by (cases room) auto
  show ?case
  proof (cases "asks_details ev")
    case True
    with Cons.prems(2) room have "length (filter asks_details pre) < r" by simp
    from Cons.IH [OF pre this]
    have nested: "snd (snd (CLIApprovalBackend_request_approval env r request (pre @ rest))) =
           Inr \<lparr>result = REJECTED, message = ''Interrupted by user'',
                approved_by = ''human'', timestamp = clock env\<rparr>"
      and logged: "Log Log_interrupted_by_user
           \<in> set (fst (CLIApprovalBackend_request_approval env r request (pre @ rest)))"
      by simp_all
    from CLI_details [OF assms(1) True nested] logged room show ?thesis
      by auto
  next
    case False
    with ev obtain v where "ev = Line v" "v \<noteq> []" "strip v \<notin> set [''y'', ''n'', ''d'']"
      by (auto simp: keeps_asking_def asks_details_def split: operator_event.splits)
    then have same: "CLIApprovalBackend_request_approval env (Suc r) request (ev # pre @ rest) =
           CLIApprovalBackend_request_approval env (Suc r) request (pre @ rest)"
      using CLI_refused [OF assms(1)] by simp
    from False Cons.prems(2) room have "length (filter asks_details pre) < Suc r" by simp
    from Cons.IH [OF pre this] same room show ?thesis
      by simp
  qed
qed

theorem cli_interrupted_rejects_witness:
  "console_print_panel (operator_does []) shell_request = None \<and>
   list_all keeps_asking [Line ''yes'', Line '' d '', Line ''Y''] \<and>
   length (filter asks_details [Line ''yes'', Line '' d '', Line ''Y'']) < (1000 :: nat) \<and>
   interrupted [Interrupt, Line ''y''] \<and> interrupted [EndOfInput] \<and> interrupted [] \<and>
   snd (snd (CLIApprovalBackend_request_approval (operator_does []) 1000 shell_request
     ([Line ''yes'', Line '' d '', Line ''Y''] @ [Interrupt, Line ''y'']))) =
     Inr \<lparr>result = REJECTED, message = ''Interrupted by user'',
          approved_by = ''human'', timestamp = 0\<rparr> \<and>
   snd (snd (CLIApprovalBackend_request_approval (operator_does []) 1000 shell_request
     ([Line ''yes'', Line '' d '', Line ''Y''] @ [EndOfInput]))) =
     Inr \<lparr>result = REJECTED, message = ''Interrupted by user'',
          approved_by = ''human'', timestamp = 0\<rparr> \<and>
   snd (snd (CLIApprovalBackend_request_approval (operator_does []) 1000 shell_request
     ([Line ''yes'', Line '' d '', Line ''Y''] @ []))) =
     Inr \<lparr>result = REJECTED, message = ''Interrupted by user'',
          approved_by = ''human'', timestamp = 0\<rparr>"
proof -
  have panel: "console_print_panel (operator_does []) shell_request = None"
    by (simp add: operator_does_def)
  have pre: "list_all keeps_asking [Line ''yes'', Line '' d '', Line ''Y'']"
    by (simp add: keeps_asking_def strip_def is_space_def)
  have room: "length (filter asks_details [Line ''yes'', Line '' d '', Line ''Y''])
                < (1000 :: nat)"
    by (simp add: asks_details_def strip_def is_space_def)
  have stop: "interrupted [Interrupt, Line ''y'']" "interrupted [EndOfInput]" "interrupted []"
    by simp_all
  have clock: "clock (operator_does []) = 0"
    by (simp add: operator_does_def)
  from cli_interrupted_rejects [OF panel pre room stop(1)] clock
  have one: "snd (snd (CLIApprovalBackend_request_approval (operator_does []) 1000 shell_request
     ([Line ''yes'', Line '' d '', Line ''Y''] @ [Interrupt, Line ''y'']))) =
     Inr \<lparr>result = REJECTED, message = ''Interrupted by user'',
          approved_by = ''human'', timestamp = 0\<rparr>"
    by simp
  from cli_interrupted_rejects [OF panel pre room stop(2)] clock
  have two: "snd (snd (CLIApprovalBackend_request_approval (operator_does []) 1000 shell_request
     ([Line ''yes'', Line '' d '', Line ''Y''] @ [EndOfInput]))) =
     Inr \<lparr>result = REJECTED, message = ''Interrupted by user'',
          approved_by = ''human'', timestamp = 0\<rparr>"
    by simp
  from cli_interrupted_rejects [OF panel pre room stop(3)] clock
  have three: "snd (snd (CLIApprovalBackend_request_approval (operator_does []) 1000 shell_request
     ([Line ''yes'', Line '' d '', Line ''Y''] @ []))) =
     Inr \<lparr>result = REJECTED, message = ''Interrupted by user'',
          approved_by = ''human'', timestamp = 0\<rparr>"
    by simp
  from panel pre room stop one two three show ?thesis
    by (simp only: simp_thms)
qed

text \<open>
  C10. At the interactive prompt the default choice is \<open>y\<close>: when the operator presses
  Enter on an empty line, \<^verbatim>\<open>CLIApprovalBackend.request_approval\<close> returns \<open>APPROVED\<close>
  with \<open>approved_by = human\<close>. The operator is at the prompt when the panel of the
  request has been printed; the empty line may come after lines that the prompt refused
  and after answers \<open>d\<close>, as far as the recursion limit has room for them.
\<close>

theorem cli_empty_input_approves:
  assumes "console_print_panel env request = None"
    and "list_all keeps_asking pre"
    and "length (filter asks_details pre) < room"
  shows "snd (snd (CLIApprovalBackend_request_approval env room request
                     (pre @ Line [] # post))) =
           Inr \<lparr>result = APPROVED, message = ''Approved via CLI'',
                approved_by = ''human'', timestamp = clock env\<rparr>"
  using assms(2,3)
proof (induction pre arbitrary: room)
  case Nil
  then obtain r where "room = Suc r" by (cases room) auto
  with assms(1) show ?case
    by (simp add: CLIApprovalBackend_request_approval.simps)
next
  case (Cons ev pre)
  from Cons.prems(1) have ev: "keeps_asking ev" and pre: "list_all keeps_asking pre"
    by simp_all
  from Cons.prems(2) obtain r where room: "room = Suc r" by (cases room) auto
  show ?case
  proof (cases "asks_details ev")
    case True
    with Cons.prems(2) room have "length (filter asks_details pre) < r" by simp
    from CLI_details(1) [OF assms(1) True Cons.IH [OF pre this]] room show ?thesis
      by simp
  next
    case False
    with ev obtain v where "ev = Line v" "v \<noteq> []" "strip v \<notin> set [''y'', ''n'', ''d'']"
      by (auto simp: keeps_asking_def asks_details_def split: operator_event.splits)
    then have same: "CLIApprovalBackend_request_approval env (Suc r) request
                       (ev # pre @ Line [] # post) =
           CLIApprovalBackend_request_approval env (Suc r) request (pre @ Line [] # post)"
      using CLI_refused [OF assms(1)] by simp
    from False Cons.prems(2) room have "length (filter asks_details pre) < Suc r" by simp
    from Cons.IH [OF pre this] same room show ?thesis
      by simp
  qed
qed

theorem cli_empty_input_approves_witness:
  "console_print_panel (operator_does []) shell_request = None \<and>
   list_all keeps_asking [] \<and> list_all keeps_asking [Line ''d''] \<and>
   length (filter asks_details [Line ''d'']) < (1000 :: nat) \<and>
   CLIApprovalBackend_request_approval (operator_does []) 1000 shell_request [Line []] =
     ([Call_Prompt_ask], [],
      Inr \<lparr>result = APPROVED, message = ''Approved via CLI'',
           approved_by = ''human'', timestamp = 0\<rparr>) \<and>
   snd (snd (CLIApprovalBackend_request_approval (operator_does []) 1000 shell_request
     ([Line ''d''] @ [Line [], Line ''n'']))) =
     Inr \<lparr>result = APPROVED, message = ''Approved via CLI'',
          approved_by = ''human'', timestamp = 0\<rparr>"
proof -
  have panel: "console_print_panel (operator_does []) shell_request = None"
    by (simp add: operator_does_def)
  have pre: "list_all keeps_asking []" "list_all keeps_asking [Line ''d'']"
    by (simp_all add: keeps_asking_def strip_def is_space_def)
  have room: "length (filter asks_details []) < (1000 :: nat)"
    "length (filter asks_details [Line ''d'']) < (1000 :: nat)"
    by (simp_all add: asks_details_def strip_def is_space_def)
  have clock: "clock (operator_does []) = 0"
    by (simp add: operator_does_def)
  from cli_empty_input_approves [OF panel pre(1) room(1), of "[]"] clock
  have "snd (snd (CLIApprovalBackend_request_approval (operator_does []) 1000 shell_request
     [Line []])) =
     Inr \<lparr>result = APPROVED, message = ''Approved via CLI'',
          approved_by = ''human'', timestamp = 0\<rparr>"
    by simp
  moreover have "fst (CLIApprovalBackend_request_approval (operator_does []) 1000 shell_request
     [Line []]) = [Call_Prompt_ask]"
    "fst (snd (CLIApprovalBackend_request_approval (operator_does []) 1000 shell_request
     [Line []])) = []"
    by (simp_all add: CLI_unfold operator_does_def)
  ultimately have one:
    "CLIApprovalBackend_request_approval (operator_does []) 1000 shell_request [Line []] =
     ([Call_Prompt_ask], [],
      Inr \<lparr>result = APPROVED, message = ''Approved via CLI'',
           approved_by = ''human'', timestamp = 0\<rparr>)"
    by (simp add: prod_eq_iff)
  from cli_empty_input_approves [OF panel pre(2) room(2), of "[Line ''n'']"] clock
  have two: "snd (snd (CLIApprovalBackend_request_approval (operator_does []) 1000 shell_request
     ([Line ''d''] @ [Line [], Line ''n'']))) =
     Inr \<lparr>result = APPROVED, message = ''Approved via CLI'',
          approved_by = ''human'', timestamp = 0\<rparr>"
    by simp
  from panel pre room(2) one two show ?thesis
    by (simp only: simp_thms)
qed

section \<open>Approval service\<close>

text \<open>
  C4. When the backend variant of the service is \<open>AUTO_APPROVE\<close>, \<open>request_approval\<close>
  returns \<open>APPROVED\<close> by \<open>system\<close> at once, for every input and every policy
  configuration, and does nothing else: no classification, no policy check, no call of
  the custom approver or of a backend.
\<close>

theorem auto_approve_bypasses:
  assumes "backend self = AUTO_APPROVE"
  shows "request_approval self env tn td params step ctx =
           ([], Inr \<lparr>result = APPROVED, message = ''Auto-approved'',
                      approved_by = ''system'', timestamp = clock env\<rparr>)"
  using assms by (simp add: request_approval_def)

theorem auto_approve_bypasses_witness:
  "request_approval
     \<lparr>backend = AUTO_APPROVE, require_approval_for = Some {''shell_tool''},
      min_risk_level = ''low'', custom_approver = Some test_custom_approver,
      approver = None\<rparr>
     (operator_does [Line ''n''])
     ''shell_tool'' ''Execute shell command'' [(''command'', ''dir'')] 1 [] =
   ([], Inr \<lparr>result = APPROVED, message = ''Auto-approved'',
              approved_by = ''system'', timestamp = 0\<rparr>)"
  using auto_approve_bypasses [where self =
      "\<lparr>backend = AUTO_APPROVE, require_approval_for = Some {''shell_tool''},
        min_risk_level = ''low'', custom_approver = Some test_custom_approver,
        approver = None\<rparr>"
      and env = "operator_does [Line ''n'']"
      and tn = "''shell_tool''" and td = "''Execute shell command''"
      and params = "[(''command'', ''dir'')]" and step = 1 and ctx = "[]"]
  by (simp add: operator_does_def)

text \<open>
  C5. For a service whose backend variant is not \<open>AUTO_APPROVE\<close>: when the policy does
  not require consultation, \<open>request_approval\<close> returns \<open>APPROVED\<close> by \<open>system\<close>
  after the classification and the policy check only, without a call of the backend or
  of the custom approver, and with a message that no verdict of the auto-approve variant
  carries; when the policy requires consultation and no custom approver is configured,
  the backend object is called exactly once and the custom approver not at all.
\<close>

theorem below_threshold_auto_approves:
  assumes "HITLApprovalService_init b required min_level url token callback = Inr self"
    and "b \<noteq> AUTO_APPROVE"
  shows "(\<not> requires_approval self tn (get_tool_risk_level tn) \<longrightarrow>
            request_approval self env tn td params step ctx =
              ([Call_get_tool_risk_level tn,
                Call_requires_approval tn (get_tool_risk_level tn),
                Log (Log_no_approval_required tn)],
               Inr \<lparr>result = APPROVED, message = ''Auto-approved (low risk)'',
                    approved_by = ''system'', timestamp = clock env\<rparr>) \<and>
            (\<forall>self' env' tn' td' params' step' ctx' r'.
               backend self' = AUTO_APPROVE \<and>
               snd (request_approval self' env' tn' td' params' step' ctx') = Inr r'
                 \<longrightarrow> message r' \<noteq> ''Auto-approved (low risk)'')) \<and>
         (requires_approval self tn (get_tool_risk_level tn) \<and> callback = None \<longrightarrow>
            length (filter is_Call_approver
                      (fst (request_approval self env tn td params step ctx))) = 1 \<and>
            filter is_Call_custom_approver
                      (fst (request_approval self env tn td params step ctx)) = [])"
proof -
  note init = init_fields [OF assms(1)]
  from init(1) assms(2) have not_auto: "backend self \<noteq> AUTO_APPROVE" by simp
  from init(5) assms(2) obtain a where a: "approver self = Some a" by blast
  have first: "\<not> requires_approval self tn (get_tool_risk_level tn) \<Longrightarrow>
      request_approval self env tn td params step ctx =
        ([Call_get_tool_risk_level tn,
          Call_requires_approval tn (get_tool_risk_level tn),
          Log (Log_no_approval_required tn)],
         Inr \<lparr>result = APPROVED, message = ''Auto-approved (low risk)'',
              approved_by = ''system'', timestamp = clock env\<rparr>)"
    using not_auto by (simp add: request_approval_def)
  have tag: "backend self' = AUTO_APPROVE \<Longrightarrow>
      snd (request_approval self' env' tn' td' params' step' ctx') = Inr r' \<Longrightarrow>
      message r' \<noteq> ''Auto-approved (low risk)''"
    for self' env' tn' td' params' step' ctx' r'
    by (auto simp: request_approval_def)
  have second: "length (filter is_Call_approver
                      (fst (request_approval self env tn td params step ctx))) = 1 \<and>
            filter is_Call_custom_approver
                      (fst (request_approval self env tn td params step ctx)) = []"
    if "requires_approval self tn (get_tool_risk_level tn)" "callback = None"
  proof -
    from that init(4) have none: "custom_approver self = None" by simp
    show ?thesis
      using not_auto that(1) none request_via_backend_effects [OF a]
      by (simp add: request_approval_def Let_def case_prod_beta)
  qed
  from first tag second show ?thesis by blast
qed

theorem below_threshold_auto_approves_witness:
  "HITLApprovalService_init CLI None ''high'' None None None =
     Inr \<lparr>backend = CLI, require_approval_for = None, min_risk_level = ''high'',
          custom_approver = None, approver = Some (CLI_approver \<lparr>cli_timeout = 60\<rparr>)\<rparr> \<and>
   \<not> requires_approval
       \<lparr>backend = CLI, require_approval_for = None, min_risk_level = ''high'',
        custom_approver = None, approver = Some (CLI_approver \<lparr>cli_timeout = 60\<rparr>)\<rparr>
       ''scroll_tool'' (get_tool_risk_level ''scroll_tool'') \<and>
   request_approval
       \<lparr>backend = CLI, require_approval_for = None, min_risk_level = ''high'',
        custom_approver = None, approver = Some (CLI_approver \<lparr>cli_timeout = 60\<rparr>)\<rparr>
       (operator_does [Line ''n''])
       ''scroll_tool'' ''scroll page'' [] 1 [] =
     ([Call_get_tool_risk_level ''scroll_tool'', Call_requires_approval ''scroll_tool'' ''low'',
       Log (Log_no_approval_required ''scroll_tool'')],
      Inr \<lparr>result = APPROVED, message = ''Auto-approved (low risk)'',
           approved_by = ''system'', timestamp = 0\<rparr>) \<and>
   requires_approval
       \<lparr>backend = CLI, require_approval_for = None, min_risk_level = ''high'',
        custom_approver = None, approver = Some (CLI_approver \<lparr>cli_timeout = 60\<rparr>)\<rparr>
       ''shell_tool'' (get_tool_risk_level ''shell_tool'') \<and>
   length (filter is_Call_approver (fst (request_approval
       \<lparr>backend = CLI, require_approval_for = None, min_risk_level = ''high'',
        custom_approver = None, approver = Some (CLI_approver \<lparr>cli_timeout = 60\<rparr>)\<rparr>
       (operator_does [Line ''n''])
       ''shell_tool'' ''run cmd'' [(''command'', ''dir'')] 2 []))) = 1"
proof -
  let ?service = "\<lparr>backend = CLI, require_approval_for = None, min_risk_level = ''high'',
        custom_approver = None, approver = Some (CLI_approver \<lparr>cli_timeout = 60\<rparr>)\<rparr>"
  let ?env = "operator_does [Line ''n'']"
  have init: "HITLApprovalService_init CLI None ''high'' None None None = Inr ?service"
    by (simp add: HITLApprovalService_init_def CLIApprovalBackend_init_def)
  have cli: "CLI \<noteq> AUTO_APPROVE" by simp
  have low: "\<not> requires_approval ?service ''scroll_tool'' (get_tool_risk_level ''scroll_tool'')"
    by (simp add: requires_approval_def risk_hierarchy_def dict_get_def get_tool_risk_level_def
          CRITICAL_RISK_TOOLS_def HIGH_RISK_TOOLS_def MEDIUM_RISK_TOOLS_def)
  have critical:
    "requires_approval ?service ''shell_tool'' (get_tool_risk_level ''shell_tool'')"
    by (simp add: requires_approval_def risk_hierarchy_def dict_get_def get_tool_risk_level_def
          CRITICAL_RISK_TOOLS_def)
  have tier: "get_tool_risk_level ''scroll_tool'' = ''low''"
    by (simp add: get_tool_risk_level_def
          CRITICAL_RISK_TOOLS_def HIGH_RISK_TOOLS_def MEDIUM_RISK_TOOLS_def)
  have clock: "clock ?env = 0"
    by (simp add: operator_does_def)
  from below_threshold_auto_approves [OF init cli, of "''scroll_tool''" ?env "''scroll page''"
      "[]" 1 "[]"] low tier clock
  have one: "request_approval ?service ?env ''scroll_tool'' ''scroll page'' [] 1 [] =
     ([Call_get_tool_risk_level ''scroll_tool'', Call_requires_approval ''scroll_tool'' ''low'',
       Log (Log_no_approval_required ''scroll_tool'')],
      Inr \<lparr>result = APPROVED, message = ''Auto-approved (low risk)'',
           approved_by = ''system'', timestamp = 0\<rparr>)"
    by simp
  from below_threshold_auto_approves [OF init cli, of "''shell_tool''" ?env "''run cmd''"
      "[(''command'', ''dir'')]" 2 "[]"] critical
  have two: "length (filter is_Call_approver (fst (request_approval ?service ?env
       ''shell_tool'' ''run cmd'' [(''command'', ''dir'')] 2 []))) = 1"
    by simp
  from init low one critical two show ?thesis by simp
qed

text \<open>
  C1 (amended). When the policy requires consultation and a custom approver is
  configured, \<open>request_approval\<close> calls the custom approver before the backend. A
  verdict that the approver returns is returned as it is, and the backend is not
  called. An exception of the approver that is an instance of \<open>Exception\<close> is caught
  and logged, the backend object is called next, and its verdict (or its exception) is
  the result. An exception that is not an instance of \<open>Exception\<close>
  (\<open>KeyboardInterrupt\<close>, \<open>SystemExit\<close>) is not caught: it leaves
  \<open>request_approval\<close>, without a log record and without a call of the backend. In no
  case does a failure of the approver produce a verdict of its own.
\<close>

theorem custom_approver_consulted_first:
  assumes "backend self \<noteq> AUTO_APPROVE"
    and "requires_approval self tn (get_tool_risk_level tn)"
    and "custom_approver self = Some callback"
    and "approver self = Some a"
    and "request = \<lparr>tool_name = tn, tool_description = td, parameters = params,
                    step_number = step, context' = ctx,
                    risk_level = get_tool_risk_level tn\<rparr>"
  shows "(\<forall>verdict. callback request = Inr verdict \<longrightarrow>
            request_approval self env tn td params step ctx =
              ([Call_get_tool_risk_level tn,
                Call_requires_approval tn (get_tool_risk_level tn),
                Call_custom_approver request],
               Inr verdict)) \<and>
         (\<forall>e. callback request = Inl e \<and> isinstance_Exception e \<longrightarrow>
            (\<exists>fx. fst (request_approval self env tn td params step ctx) =
                     [Call_get_tool_risk_level tn,
                      Call_requires_approval tn (get_tool_risk_level tn),
                      Call_custom_approver request,
                      Log (Log_custom_approver_failed e),
                      Log (Log_requesting_approval tn (get_tool_risk_level tn)),
                      Call_approver request] @ fx) \<and>
            snd (request_approval self env tn td params step ctx) =
              snd (approver_request_approval a env request)) \<and>
         (\<forall>e. callback request = Inl e \<and> \<not> isinstance_Exception e \<longrightarrow>
            request_approval self env tn td params step ctx =
              ([Call_get_tool_risk_level tn,
                Call_requires_approval tn (get_tool_risk_level tn),
                Call_custom_approver request],
               Inl e))"
  using assms
  by (auto simp: request_approval_def request_via_backend_def Let_def case_prod_beta
        split: sum.splits)

theorem custom_approver_consulted_first_witness:
  "request_approval (service_with test_custom_approver) (operator_does [Line ''y''])
     ''shell_tool'' ''Execute shell command'' [(''command'', ''dir'')] 1 [] =
     ([Call_get_tool_risk_level ''shell_tool'',
       Call_requires_approval ''shell_tool'' ''critical'',
       Call_custom_approver shell_request],
      Inr \<lparr>result = REJECTED, message = ''Shell commands not allowed'',
           approved_by = ''custom_policy'', timestamp = 0\<rparr>) \<and>
   snd (request_approval (service_with failing_approver) (operator_does [Line ''n''])
     ''shell_tool'' ''Execute shell command'' [(''command'', ''dir'')] 1 []) =
     Inr \<lparr>result = REJECTED, message = ''Rejected via CLI'',
          approved_by = ''human'', timestamp = 0\<rparr> \<and>
   snd (request_approval (service_with exiting_approver) (operator_does [Line ''y''])
     ''shell_tool'' ''Execute shell command'' [(''command'', ''dir'')] 1 []) =
     Inl SystemExit"
proof -
  have tier: "get_tool_risk_level ''shell_tool'' = ''critical''"
    by (simp add: get_tool_risk_level_def CRITICAL_RISK_TOOLS_def)
  have request: "shell_request =
      \<lparr>tool_name = ''shell_tool'', tool_description = ''Execute shell command'',
       parameters = [(''command'', ''dir'')], step_number = 1, context' = [],
       risk_level = get_tool_risk_level ''shell_tool''\<rparr>"
    by (simp add: shell_request_def tier)
  have cli: "backend (service_with callback) \<noteq> AUTO_APPROVE" for callback
    by (simp add: service_with_def)
  have needed: "requires_approval (service_with callback) ''shell_tool''
                  (get_tool_risk_level ''shell_tool'')" for callback
    by (simp add: tier service_with_def requires_approval_def risk_hierarchy_def dict_get_def)
  have callback: "custom_approver (service_with callback) = Some callback" for callback
    by (simp add: service_with_def)
  have object: "approver (service_with callback)
                  = Some (CLI_approver (CLIApprovalBackend_init 60))" for callback
    by (simp add: service_with_def)
  have asked: "snd (approver_request_approval (CLI_approver (CLIApprovalBackend_init 60))
      (operator_does [Line ''n'']) shell_request) =
     Inr \<lparr>result = REJECTED, message = ''Rejected via CLI'',
          approved_by = ''human'', timestamp = 0\<rparr>"
    by (simp add: approver_request_approval_def operator_does_def strip_def is_space_def
          CLI_unfold)
  from custom_approver_consulted_first [where callback = test_custom_approver
      and env = "operator_does [Line ''y'']", OF cli needed callback object request,
      THEN conjunct1]
  have one: "request_approval (service_with test_custom_approver) (operator_does [Line ''y''])
     ''shell_tool'' ''Execute shell command'' [(''command'', ''dir'')] 1 [] =
     ([Call_get_tool_risk_level ''shell_tool'',
       Call_requires_approval ''shell_tool'' ''critical'',
       Call_custom_approver shell_request],
      Inr \<lparr>result = REJECTED, message = ''Shell commands not allowed'',
           approved_by = ''custom_policy'', timestamp = 0\<rparr>)"
    by (simp add: tier test_custom_approver_def shell_request_def)
  from custom_approver_consulted_first [where callback = failing_approver
      and env = "operator_does [Line ''n'']", OF cli needed callback object request,
      THEN conjunct2, THEN conjunct1] asked
  have two: "snd (request_approval (service_with failing_approver) (operator_does [Line ''n''])
     ''shell_tool'' ''Execute shell command'' [(''command'', ''dir'')] 1 []) =
     Inr \<lparr>result = REJECTED, message = ''Rejected via CLI'',
          approved_by = ''human'', timestamp = 0\<rparr>"
    by (simp add: failing_approver_def)
  from custom_approver_consulted_first [where callback = exiting_approver
      and env = "operator_does [Line ''y'']", OF cli needed callback object request,
      THEN conjunct2, THEN conjunct2]
  have three: "snd (request_approval (service_with exiting_approver) (operator_does [Line ''y''])
     ''shell_tool'' ''Execute shell command'' [(''command'', ''dir'')] 1 []) =
     Inl SystemExit"
    by (simp add: exiting_approver_def)
  from one two three show ?thesis
    by (simp only: simp_thms)
qed

text \<open>
  The claim as it was stated fails for an approver that raises \<open>KeyboardInterrupt\<close>,
  as one that reads the operator's answer with \<^verbatim>\<open>input()\<close> does on Ctrl-C: the
  exception is neither caught nor logged, the backend object, which would have returned
  a verdict, is not called, and no verdict is returned.
\<close>

theorem custom_approver_interrupt_counterexample:
  "request_approval (service_with interrupted_approver) (operator_does [Line ''n''])
     ''shell_tool'' ''Execute shell command'' [(''command'', ''dir'')] 1 [] =
     ([Call_get_tool_risk_level ''shell_tool'',
       Call_requires_approval ''shell_tool'' ''critical'',
       Call_custom_approver shell_request],
      Inl KeyboardInterrupt) \<and>
   approver_request_approval (CLI_approver (CLIApprovalBackend_init 60))
     (operator_does [Line ''n'']) shell_request =
     ([Call_Prompt_ask],
      Inr \<lparr>result = REJECTED, message = ''Rejected via CLI'',
           approved_by = ''human'', timestamp = 0\<rparr>)"
  by (simp add: request_approval_def requires_approval_def risk_hierarchy_def dict_get_def
        get_tool_risk_level_def CRITICAL_RISK_TOOLS_def approver_request_approval_def
        service_with_def interrupted_approver_def operator_does_def shell_request_def
        Let_def strip_def is_space_def CLI_unfold)

section \<open>Slack backend\<close>




section \<open>Tool registry\<close>

text \<open>
  C9 (amended). For a tool found in the registry and executed through
  \<^verbatim>\<open>Registry.execute\<close> with an approval service configured: if the verdict is
  \<open>REJECTED\<close>, the tool is neither validated nor invoked and the result has
  \<open>is_success = False\<close> with the error text
  \<open>Tool execution rejected by human approval: \<close> followed by the verdict's message; if
  the verdict is \<open>TIMEOUT\<close>, the tool is neither validated nor invoked and the result
  has \<open>is_success = False\<close> with the fixed error text
  \<open>Tool execution approval timed out\<close>, which does not carry the verdict's message; if
  the verdict is \<open>APPROVED\<close>, execution goes on to the tool: the arguments are
  validated and, when they are valid, the tool is invoked.
\<close>

theorem execute_gated:
  assumes "tools_registry self tn = Some tool"
    and "hitl_service self = Some service"
    and "request_approval service env tn (description tool) kwargs step
           (''Agent requesting to execute '' @ tn) = (fx, Inr verdict)"
  shows "(result verdict = REJECTED \<longrightarrow>
            execute self env tn desktop step kwargs =
              (fx @ [Log (Log_execution_rejected tn (message verdict))],
               Inr \<lparr>is_success = False, content = None,
                    error = Some (''Tool execution rejected by human approval: ''
                                   @ message verdict)\<rparr>)) \<and>
         (result verdict = TIMEOUT \<longrightarrow>
            execute self env tn desktop step kwargs =
              (fx @ [Log (Log_execution_timed_out tn)],
               Inr \<lparr>is_success = False, content = None,
                    error = Some ''Tool execution approval timed out''\<rparr>)) \<and>
         (result verdict \<noteq> APPROVED \<longrightarrow>
            filter touches_tool (fst (execute self env tn desktop step kwargs)) = []) \<and>
         (result verdict = APPROVED \<longrightarrow>
            fst (execute self env tn desktop step kwargs) =
              fx @ [Log (Log_execution_approved (approved_by verdict) tn),
                    Call_model_validate (name tool) kwargs]
                 @ (case model_validate tool kwargs of
                      Inl e \<Rightarrow> [] | Inr args \<Rightarrow> [Call_invoke (name tool) args]) \<and>
            snd (execute self env tn desktop step kwargs) =
              snd (invoke_tool tool desktop kwargs))"
proof -
  have quiet: "filter touches_tool fx = []"
    using request_approval_no_tool
      [of service env tn "description tool" kwargs step "''Agent requesting to execute '' @ tn"]
      assms(3)
    by simp
  show ?thesis
    using assms quiet
    by (cases "result verdict")
       (auto simp: execute_def invoke_tool_def case_prod_beta split: sum.splits)
qed

theorem execute_gated_witness:
  "snd (execute
     (Registry_init [example_tool ''shell_tool'', example_tool ''click_tool'']
        (Some (service_with test_custom_approver)))
     (operator_does []) ''shell_tool'' None 3 [(''command'', ''dir'')]) =
     Inr \<lparr>is_success = False, content = None,
          error = Some ''Tool execution rejected by human approval: Shell commands not allowed''\<rparr> \<and>
   snd (execute
     (Registry_init [example_tool ''shell_tool'', example_tool ''click_tool'']
        (Some (service_with timeout_approver)))
     (operator_does []) ''shell_tool'' None 3 [(''command'', ''dir'')]) =
     Inr \<lparr>is_success = False, content = None,
          error = Some ''Tool execution approval timed out''\<rparr> \<and>
   execute
     (Registry_init [example_tool ''shell_tool'', example_tool ''click_tool'']
        (Some (service_with test_custom_approver)))
     (operator_does []) ''click_tool'' None 4 [(''loc'', ''(100, 200)'')] =
     ([Call_get_tool_risk_level ''click_tool'',
       Call_requires_approval ''click_tool'' ''medium'',
       Call_custom_approver
         \<lparr>tool_name = ''click_tool'', tool_description = ''Example tool'',
          parameters = [(''loc'', ''(100, 200)'')], step_number = 4,
          context' = ''Agent requesting to execute click_tool'',
          risk_level = ''medium''\<rparr>,
       Log (Log_execution_approved ''custom_policy'' ''click_tool''),
       Call_model_validate ''click_tool'' [(''loc'', ''(100, 200)'')],
       Call_invoke ''click_tool'' [(''loc'', ''(100, 200)'')]],
      Inr \<lparr>is_success = True, content = Some ''done'', error = None\<rparr>)"
proof -
  let ?registry = "\<lambda>callback.
     Registry_init [example_tool ''shell_tool'', example_tool ''click_tool'']
       (Some (service_with callback))"
  have found: "tools_registry (?registry callback) ''shell_tool''
                 = Some (example_tool ''shell_tool'')"
    "tools_registry (?registry callback) ''click_tool''
                 = Some (example_tool ''click_tool'')" for callback
    by (simp_all add: Registry_init_def registry_def example_tool_def)
  have gated: "hitl_service (?registry callback) = Some (service_with callback)" for callback
    by (simp add: Registry_init_def)
  have rejected: "request_approval (service_with test_custom_approver) (operator_does [])
      ''shell_tool'' (description (example_tool ''shell_tool'')) [(''command'', ''dir'')] 3
      (''Agent requesting to execute '' @ ''shell_tool'') =
      ([Call_get_tool_risk_level ''shell_tool'',
        Call_requires_approval ''shell_tool'' ''critical'',
        Call_custom_approver
          \<lparr>tool_name = ''shell_tool'', tool_description = ''Example tool'',
           parameters = [(''command'', ''dir'')], step_number = 3,
           context' = ''Agent requesting to execute shell_tool'',
           risk_level = ''critical''\<rparr>],
       Inr \<lparr>result = REJECTED, message = ''Shell commands not allowed'',
            approved_by = ''custom_policy'', timestamp = 0\<rparr>)"
    by (simp add: request_approval_def requires_approval_def risk_hierarchy_def dict_get_def
          get_tool_risk_level_def CRITICAL_RISK_TOOLS_def Let_def service_with_def
          test_custom_approver_def example_tool_def)
  have timed_out: "request_approval (service_with timeout_approver) (operator_does [])
      ''shell_tool'' (description (example_tool ''shell_tool'')) [(''command'', ''dir'')] 3
      (''Agent requesting to execute '' @ ''shell_tool'') =
      ([Call_get_tool_risk_level ''shell_tool'',
        Call_requires_approval ''shell_tool'' ''critical'',
        Call_custom_approver
          \<lparr>tool_name = ''shell_tool'', tool_description = ''Example tool'',
           parameters = [(''command'', ''dir'')], step_number = 3,
           context' = ''Agent requesting to execute shell_tool'',
           risk_level = ''critical''\<rparr>],
       Inr \<lparr>result = TIMEOUT, message = ''quorum lost'',
            approved_by = ''custom_policy'', timestamp = 0\<rparr>)"
    by (simp add: request_approval_def requires_approval_def risk_hierarchy_def dict_get_def
          get_tool_risk_level_def CRITICAL_RISK_TOOLS_def Let_def service_with_def
          timeout_approver_def example_tool_def)
  have approved: "request_approval (service_with test_custom_approver) (operator_does [])
      ''click_tool'' (description (example_tool ''click_tool'')) [(''loc'', ''(100, 200)'')] 4
      (''Agent requesting to execute '' @ ''click_tool'') =
      ([Call_get_tool_risk_level ''click_tool'',
        Call_requires_approval ''click_tool'' ''medium'',
        Call_custom_approver
          \<lparr>tool_name = ''click_tool'', tool_description = ''Example tool'',
           parameters = [(''loc'', ''(100, 200)'')], step_number = 4,
           context' = ''Agent requesting to execute click_tool'',
           risk_level = ''medium''\<rparr>],
       Inr \<lparr>result = APPROVED, message = ''Approved by custom policy'',
            approved_by = ''custom_policy'', timestamp = 0\<rparr>)"
    by (simp add: request_approval_def requires_approval_def risk_hierarchy_def dict_get_def
          get_tool_risk_level_def CRITICAL_RISK_TOOLS_def HIGH_RISK_TOOLS_def
          MEDIUM_RISK_TOOLS_def Let_def service_with_def
          test_custom_approver_def example_tool_def)
  from execute_gated [OF found(1) gated rejected, where desktop = None, THEN conjunct1]
  have one: "snd (execute (?registry test_custom_approver)
     (operator_does []) ''shell_tool'' None 3 [(''command'', ''dir'')]) =
     Inr \<lparr>is_success = False, content = None,
          error = Some ''Tool execution rejected by human approval: Shell commands not allowed''\<rparr>"
    by simp
  from execute_gated [OF found(1) gated timed_out, where desktop = None,
      THEN conjunct2, THEN conjunct1]
  have two: "snd (execute (?registry timeout_approver)
     (operator_does []) ''shell_tool'' None 3 [(''command'', ''dir'')]) =
     Inr \<lparr>is_success = False, content = None,
          error = Some ''Tool execution approval timed out''\<rparr>"
    by simp
  from execute_gated [OF found(2) gated approved, where desktop = None,
      THEN conjunct2, THEN conjunct2, THEN conjunct2]
  have three: "execute (?registry test_custom_approver)
     (operator_does []) ''click_tool'' None 4 [(''loc'', ''(100, 200)'')] =
     ([Call_get_tool_risk_level ''click_tool'',
       Call_requires_approval ''click_tool'' ''medium'',
       Call_custom_approver
         \<lparr>tool_name = ''click_tool'', tool_description = ''Example tool'',
          parameters = [(''loc'', ''(100, 200)'')], step_number = 4,
          context' = ''Agent requesting to execute click_tool'',
          risk_level = ''medium''\<rparr>,
       Log (Log_execution_approved ''custom_policy'' ''click_tool''),
       Call_model_validate ''click_tool'' [(''loc'', ''(100, 200)'')],
       Call_invoke ''click_tool'' [(''loc'', ''(100, 200)'')]],
      Inr \<lparr>is_success = True, content = Some ''done'', error = None\<rparr>)"
    by (simp add: invoke_tool_def example_tool_def prod_eq_iff)
  from one two three show ?thesis
    by (simp only: simp_thms)
qed

text \<open>
  The claim as it was stated fails for a verdict \<open>TIMEOUT\<close>: the error text of the result
  is the fixed text, and the verdict's message does not occur in it.
\<close>

theorem execute_timeout_message_counterexample:
  "timeout_approver shell_request =
     Inr \<lparr>result = TIMEOUT, message = ''quorum lost'',
          approved_by = ''custom_policy'', timestamp = 0\<rparr> \<and>
   snd (execute
     (Registry_init [example_tool ''shell_tool''] (Some (service_with timeout_approver)))
     (operator_does []) ''shell_tool'' None 3 [(''command'', ''dir'')]) =
     Inr \<lparr>is_success = False, content = None,
          error = Some ''Tool execution approval timed out''\<rparr> \<and>
   \<not> sublist ''quorum lost'' ''Tool execution approval timed out''"
proof -
  have "CHR ''q'' \<notin> set ''Tool execution approval timed out''"
    by simp
  then have "\<not> set ''quorum lost'' \<subseteq> set ''Tool execution approval timed out''"
    by simp
  then have absent: "\<not> sublist ''quorum lost'' ''Tool execution approval timed out''"
    using set_mono_sublist by blast
  have "snd (execute
     (Registry_init [example_tool ''shell_tool''] (Some (service_with timeout_approver)))
     (operator_does []) ''shell_tool'' None 3 [(''command'', ''dir'')]) =
     Inr \<lparr>is_success = False, content = None,
          error = Some ''Tool execution approval timed out''\<rparr>"
    by (simp add: execute_def Registry_init_def registry_def request_approval_def
          requires_approval_def risk_hierarchy_def dict_get_def
          get_tool_risk_level_def CRITICAL_RISK_TOOLS_def Let_def
          service_with_def timeout_approver_def example_tool_def)
  with absent show ?thesis by (simp add: timeout_approver_def)
qed

end
